theory Spec2Isabelle
  imports Main "HOL-Library.Sublist"
begin

section \<open>Byte strings and the library functions the command relies on\<close>

text \<open>
  A Go \<^verbatim>\<open>string\<close> is a sequence of bytes; it is modelled by \<^typ>\<open>string\<close>, whose
  characters are 8-bit values. The functions of this section belong to Go's standard
  library (\<^verbatim>\<open>strings\<close>, \<^verbatim>\<open>unicode\<close>, \<^verbatim>\<open>path/filepath\<close>); they are written out
  here as far as the \<^verbatim>\<open>generate\<close> command calls them, for a Unix path separator.
\<close>

subsection \<open>\<^verbatim>\<open>strings.TrimSpace\<close>\<close>

text \<open>The six ASCII bytes for which \<^verbatim>\<open>unicode.IsSpace\<close> holds.\<close>

definition asciiSpace :: "char \<Rightarrow> bool" where
  "asciiSpace c = (c \<in> set [CHR 0x09, CHR 0x0A, CHR 0x0B, CHR 0x0C, CHR 0x0D, CHR 0x20])"

text \<open>
  The UTF-8 encodings of the other runes for which \<^verbatim>\<open>unicode.IsSpace\<close> holds:
  U+0085, U+00A0, U+1680, U+2000 to U+200A, U+2028, U+2029, U+202F, U+205F, U+3000.
\<close>

definition unicodeSpaces :: "string list" where
  "unicodeSpaces =
     [[CHR 0xC2, CHR 0x85], [CHR 0xC2, CHR 0xA0], [CHR 0xE1, CHR 0x9A, CHR 0x80]] @
     map (\<lambda>b. [CHR 0xE2, CHR 0x80, b])
       [CHR 0x80, CHR 0x81, CHR 0x82, CHR 0x83, CHR 0x84, CHR 0x85, CHR 0x86, CHR 0x87,
        CHR 0x88, CHR 0x89, CHR 0x8A, CHR 0xA8, CHR 0xA9, CHR 0xAF] @
     [[CHR 0xE2, CHR 0x81, CHR 0x9F], [CHR 0xE3, CHR 0x80, CHR 0x80]]"

text \<open>
  The width in bytes of the white-space rune a string starts with (\<open>leadingSpace\<close>) or
  ends with (\<open>trailingSpace\<close>), and 0 when the first (last) rune is no white space.
  A byte sequence that is no valid UTF-8 decodes to the error rune, which is no space.
\<close>

definition leadingSpace :: "string \<Rightarrow> nat" where
  "leadingSpace s =
     (case s of
        [] \<Rightarrow> 0
      | c # _ \<Rightarrow>
          if asciiSpace c then 1
          else (case find (\<lambda>p. prefix p s) unicodeSpaces of
                  None \<Rightarrow> 0
                | Some p \<Rightarrow> length p))"

definition trailingSpace :: "string \<Rightarrow> nat" where
  "trailingSpace s =
     (if s = [] then 0
      else if asciiSpace (last s) then 1
      else (case find (\<lambda>p. suffix p s) unicodeSpaces of
              None \<Rightarrow> 0
            | Some p \<Rightarrow> length p))"

function TrimLeftSpace :: "string \<Rightarrow> string" where
  "TrimLeftSpace s =
     (if leadingSpace s = 0 then s else TrimLeftSpace (drop (leadingSpace s) s))"
  by pat_completeness auto
termination
  by (relation "measure length") (auto simp: leadingSpace_def intro: diff_less split: list.splits)

function TrimRightSpace :: "string \<Rightarrow> string" where
  "TrimRightSpace s =
     (if trailingSpace s = 0 then s
      else TrimRightSpace (take (length s - trailingSpace s) s))"
  by pat_completeness auto
termination
  by (relation "measure length") (auto simp: trailingSpace_def intro: diff_less split: if_splits)

declare TrimLeftSpace.simps [simp del] TrimRightSpace.simps [simp del]

definition TrimSpace :: "string \<Rightarrow> string" where
  "TrimSpace s = TrimRightSpace (TrimLeftSpace s)"

subsection \<open>\<^verbatim>\<open>strings.CutPrefix\<close>, \<^verbatim>\<open>strings.TrimSuffix\<close>, \<^verbatim>\<open>strings.SplitSeq\<close>\<close>

definition CutPrefix :: "string \<Rightarrow> string \<Rightarrow> string \<times> bool" where
  "CutPrefix s p = (if prefix p s then (drop (length p) s, True) else (s, False))"

definition TrimSuffix :: "string \<Rightarrow> string \<Rightarrow> string" where
  "TrimSuffix s suf = (if suffix suf s then take (length s - length suf) s else s)"

text \<open>
  \<^verbatim>\<open>strings.SplitSeq(s, sep)\<close> for a separator of one byte: the substrings between the
  separators, in order; the empty string gives one empty substring.
\<close>

fun SplitSeq :: "string \<Rightarrow> char \<Rightarrow> string list" where
  "SplitSeq [] sep = [[]]"
| "SplitSeq (c # cs) sep =
     (if c = sep then [] # SplitSeq cs sep
      else (case SplitSeq cs sep of
              [] \<Rightarrow> [[c]]
            | l # ls \<Rightarrow> (c # l) # ls))"

subsection \<open>\<^verbatim>\<open>filepath.Base\<close> and \<^verbatim>\<open>filepath.Ext\<close>\<close>

definition Separator :: char where
  "Separator = CHR ''/''"

text \<open>
  \<^verbatim>\<open>filepath.Ext\<close> walks from the last byte towards the front until a separator, and
  returns the suffix that starts at the first dot it meets. \<open>ExtLoop\<close> takes the bytes
  not yet visited, last one first, and the bytes already visited.
\<close>

fun ExtLoop :: "string \<Rightarrow> string \<Rightarrow> string" where
  "ExtLoop [] visited = []"
| "ExtLoop (c # front) visited =
     (if c = Separator then []
      else if c = CHR ''.'' then c # visited
      else ExtLoop front (c # visited))"

definition Ext :: "string \<Rightarrow> string" where
  "Ext path = ExtLoop (rev path) []"

text \<open>
  \<^verbatim>\<open>filepath.Base\<close>: the last element of the path, after removing trailing separators;
  \<open>.\<close> for the empty path and a single separator for a path of separators only.
\<close>

definition Base :: "string \<Rightarrow> string" where
  "Base path =
     (if path = [] then ''.''
      else
        let stripped = rev (dropWhile (\<lambda>c. c = Separator) (rev path));
            element = rev (takeWhile (\<lambda>c. c \<noteq> Separator) (rev stripped))
        in if element = [] then [Separator] else element)"

section \<open>Title extraction\<close>

text \<open>The body of the \<^verbatim>\<open>for line := range lines\<close> loop of \<^verbatim>\<open>extractTitleFromMarkdown\<close>.\<close>

fun extractTitleLoop :: "string list \<Rightarrow> string" where
  "extractTitleLoop [] = []"
| "extractTitleLoop (line # lines) =
     (let line' = TrimSpace line;
          (after, ok) = CutPrefix line' ''# ''
      in if ok then after else extractTitleLoop lines)"

definition extractTitleFromMarkdown :: "string \<Rightarrow> string" where
  "extractTitleFromMarkdown content = extractTitleLoop (SplitSeq content CHR 0x0A)"

section \<open>The command's options\<close>

record generateOptions =
  markdownFilename :: string
  epubFilename :: string
  overwrite :: bool
  title :: string
  author :: string
  language :: string

text \<open>
  What the user wrote on the command line: \<open>None\<close> for a flag that was not given.
  \<^verbatim>\<open>init\<close> binds every flag to a field of \<^verbatim>\<open>generateOps\<close> with a default value, so
  the field holds the default unless the flag was given.
\<close>

record commandLine =
  inputFlag :: "string option"
  outputFlag :: "string option"
  overwriteFlag :: "bool option"
  titleFlag :: "string option"
  authorFlag :: "string option"
  languageFlag :: "string option"

definition StringVarP :: "string \<Rightarrow> string option \<Rightarrow> string" where
  "StringVarP dflt given = (case given of None \<Rightarrow> dflt | Some v \<Rightarrow> v)"

definition BoolVarP :: "bool \<Rightarrow> bool option \<Rightarrow> bool" where
  "BoolVarP dflt given = (case given of None \<Rightarrow> dflt | Some v \<Rightarrow> v)"

definition init :: "commandLine \<Rightarrow> generateOptions" where
  "init cl =
     \<lparr>markdownFilename = StringVarP [] (inputFlag cl),
      epubFilename = StringVarP [] (outputFlag cl),
      overwrite = BoolVarP False (overwriteFlag cl),
      title = StringVarP [] (titleFlag cl),
      author = StringVarP [] (authorFlag cl),
      language = StringVarP ''en'' (languageFlag cl)\<rparr>"

text \<open>The block of \<^verbatim>\<open>runGenerate\<close> under the comment \<^verbatim>\<open>Determine title\<close>.\<close>

definition determineTitle :: "generateOptions \<Rightarrow> string \<Rightarrow> string" where
  "determineTitle generateOps content =
     (let t = title generateOps in
      if t = [] then
        let t = extractTitleFromMarkdown content in
        if t = [] then
          TrimSuffix (Base (markdownFilename generateOps)) (Ext (markdownFilename generateOps))
        else t
      else t)"

section \<open>The world outside the program\<close>

subsection \<open>The container built by the go-epub library\<close>

text \<open>
  An \<^verbatim>\<open>Epub\<close> value of the go-epub library, as far as the command drives it: the
  metadata, the stylesheets and fonts attached (internal file name and source), and the
  sections in the order of the calls that added them, each with the arguments of its
  \<^verbatim>\<open>AddSection\<close> call.
\<close>

record epubSection =
  body :: string
  sectionTitle :: string
  internalFilename :: string
  internalCSSPath :: string

record epub =
  epubTitle :: string
  lang :: string
  epubAuthor :: string
  css :: "(string \<times> string) list"
  fonts :: "(string \<times> string) list"
  sections :: "epubSection list"

subsection \<open>File system, calls and faults\<close>

text \<open>
  Every call the program makes to the operating system or to a library is one
  \<open>call\<close>. The world is the file system (path to bytes) and the calls made so far,
  oldest first.
\<close>

datatype call =
    Stat string
  | ReadFile string
  | Convert string
  | NewEpub string
  | SetLang string
  | SetAuthor string
  | CreateTemp string string
  | WriteString string string
  | Close string
  | AddCSS string string
  | AddSection string string string string
  | AddFont string string
  | Write string epub
  | Remove string
  | Printf string

record world =
  files :: "string \<rightharpoonup> string"
  calls :: "call list"

text \<open>
  What the program does not decide is a parameter: which calls fail and with which
  message (\<open>fault\<close>; no run makes the same call twice, \<open>Stat\<close> apart), the
  embedded \<^verbatim>\<open>style.css\<close> (\<open>defaultCSS\<close>), the HTML goldmark renders
  (\<open>goldmark\<close>), the directory and the random part of the temporary file's name
  (\<open>TempDir\<close>, \<open>nextRandom\<close>), the bytes of a written container, which depend on
  the files it takes in (\<open>archive\<close>), and what a failed write leaves at its
  destination (\<open>partialWrite\<close>, \<open>None\<close> for nothing).
\<close>

record env =
  fault :: "call \<Rightarrow> string option"
  defaultCSS :: string
  goldmark :: "string \<Rightarrow> string"
  TempDir :: string
  nextRandom :: string
  archive :: "(string \<rightharpoonup> string) \<Rightarrow> epub \<Rightarrow> string"
  partialWrite :: "(string \<rightharpoonup> string) \<Rightarrow> epub \<Rightarrow> string option"

definition logCall :: "call \<Rightarrow> world \<Rightarrow> world" where
  "logCall c w = w\<lparr>calls := calls w @ [c]\<rparr>"

text \<open>A call is recorded whether it fails or not.\<close>

definition attempt :: "env \<Rightarrow> call \<Rightarrow> world \<Rightarrow> string option \<times> world" where
  "attempt env c w = (fault env c, logCall c w)"

subsection \<open>Operating system and helper calls\<close>

text \<open>\<^verbatim>\<open>iohelper.IsFileExist\<close>: whether the path names an existing file.\<close>

definition iohelper_IsFileExist :: "string \<Rightarrow> world \<Rightarrow> bool \<times> world" where
  "iohelper_IsFileExist path w = (files w path \<noteq> None, logCall (Stat path) w)"

definition os_ReadFile :: "env \<Rightarrow> string \<Rightarrow> world \<Rightarrow> (string + string) \<times> world" where
  "os_ReadFile env name w =
     (case attempt env (ReadFile name) w of
        (Some err, w') \<Rightarrow> (Inl err, w')
      | (None, w') \<Rightarrow>
          (case files w name of
             None \<Rightarrow> (Inl (''open '' @ name @ '': no such file or directory''), w')
           | Some bytes \<Rightarrow> (Inr bytes, w')))"

text \<open>
  \<^verbatim>\<open>os.CreateTemp(dir, pattern)\<close>: the name is the pattern with its last \<open>*\<close> replaced
  by a random string, in \<open>dir\<close> or, for the empty \<open>dir\<close>, in the default directory for
  temporary files. The file is created empty and must not exist before.
\<close>

definition prefixAndSuffix :: "string \<Rightarrow> string \<times> string" where
  "prefixAndSuffix pattern =
     (let back = dropWhile (\<lambda>c. c \<noteq> CHR ''*'') (rev pattern)
      in if back = [] then (pattern, [])
         else (rev (tl back), rev (takeWhile (\<lambda>c. c \<noteq> CHR ''*'') (rev pattern))))"

definition joinPath :: "string \<Rightarrow> string \<Rightarrow> string" where
  "joinPath dir name =
     (if dir \<noteq> [] \<and> last dir = Separator then dir @ name else dir @ [Separator] @ name)"

definition tempName :: "env \<Rightarrow> string \<Rightarrow> string \<Rightarrow> string" where
  "tempName env dir pattern =
     (let (pre, suf) = prefixAndSuffix pattern
      in joinPath (if dir = [] then TempDir env else dir) (pre @ nextRandom env @ suf))"

definition os_CreateTemp ::
  "env \<Rightarrow> string \<Rightarrow> string \<Rightarrow> world \<Rightarrow> (string + string) \<times> world" where
  "os_CreateTemp env dir pattern w =
     (case attempt env (CreateTemp dir pattern) w of
        (Some err, w') \<Rightarrow> (Inl err, w')
      | (None, w') \<Rightarrow>
          let name = tempName env dir pattern in
          if files w name \<noteq> None then (Inl (''open '' @ name @ '': file exists''), w')
          else (Inr name, w'\<lparr>files := (files w')(name \<mapsto> [])\<rparr>))"

definition file_WriteString ::
  "env \<Rightarrow> string \<Rightarrow> string \<Rightarrow> world \<Rightarrow> string option \<times> world" where
  "file_WriteString env name s w =
     (case attempt env (WriteString name s) w of
        (Some err, w') \<Rightarrow> (Some err, w')
      | (None, w') \<Rightarrow>
          let old = (case files w name of None \<Rightarrow> [] | Some b \<Rightarrow> b)
          in (None, w'\<lparr>files := (files w')(name \<mapsto> old @ s)\<rparr>))"

definition file_Close :: "string \<Rightarrow> world \<Rightarrow> world" where
  "file_Close name w = logCall (Close name) w"

text \<open>\<^verbatim>\<open>os.Remove\<close>; the program ignores its error.\<close>

definition os_Remove :: "env \<Rightarrow> string \<Rightarrow> world \<Rightarrow> world" where
  "os_Remove env name w =
     (case attempt env (Remove name) w of
        (Some err, w') \<Rightarrow> w'
      | (None, w') \<Rightarrow> w'\<lparr>files := (files w')(name := None)\<rparr>)"

definition fmt_Printf :: "string \<Rightarrow> world \<Rightarrow> world" where
  "fmt_Printf s w = logCall (Printf s) w"

subsection \<open>go-epub calls\<close>

definition epub_NewEpub :: "env \<Rightarrow> string \<Rightarrow> world \<Rightarrow> (string + epub) \<times> world" where
  "epub_NewEpub env t w =
     (case attempt env (NewEpub t) w of
        (Some err, w') \<Rightarrow> (Inl err, w')
      | (None, w') \<Rightarrow>
          (Inr \<lparr>epubTitle = t, lang = ''en'', epubAuthor = [], css = [], fonts = [],
                sections = []\<rparr>, w'))"

definition epub_SetLang :: "epub \<Rightarrow> string \<Rightarrow> world \<Rightarrow> epub \<times> world" where
  "epub_SetLang e l w = (e\<lparr>lang := l\<rparr>, logCall (SetLang l) w)"

definition epub_SetAuthor :: "epub \<Rightarrow> string \<Rightarrow> world \<Rightarrow> epub \<times> world" where
  "epub_SetAuthor e a w = (e\<lparr>epubAuthor := a\<rparr>, logCall (SetAuthor a) w)"

text \<open>
  \<^verbatim>\<open>AddCSS\<close> returns the path by which a section refers to the stylesheet: the
  library keeps stylesheets in the folder \<open>css\<close> beside the folder of the sections.
  \<^verbatim>\<open>AddSection\<close> puts the new section after the sections added before.
\<close>

definition epub_AddCSS ::
  "env \<Rightarrow> epub \<Rightarrow> string \<Rightarrow> string \<Rightarrow> world \<Rightarrow> (string + string \<times> epub) \<times> world" where
  "epub_AddCSS env e source name w =
     (case attempt env (AddCSS source name) w of
        (Some err, w') \<Rightarrow> (Inl err, w')
      | (None, w') \<Rightarrow> (Inr (''../css/'' @ name, e\<lparr>css := css e @ [(name, source)]\<rparr>), w'))"

definition epub_AddSection ::
  "env \<Rightarrow> epub \<Rightarrow> string \<Rightarrow> string \<Rightarrow> string \<Rightarrow> string \<Rightarrow> world
     \<Rightarrow> (string + epub) \<times> world" where
  "epub_AddSection env e b t name cssPath w =
     (case attempt env (AddSection b t name cssPath) w of
        (Some err, w') \<Rightarrow> (Inl err, w')
      | (None, w') \<Rightarrow>
          (Inr (e\<lparr>sections := sections e @
                  [\<lparr>body = b, sectionTitle = t, internalFilename = name,
                    internalCSSPath = cssPath\<rparr>]\<rparr>), w'))"

definition epub_Write :: "env \<Rightarrow> epub \<Rightarrow> string \<Rightarrow> world \<Rightarrow> string option \<times> world" where
  "epub_Write env e dest w =
     (case attempt env (Write dest e) w of
        (Some err, w') \<Rightarrow>
          (Some err,
           (case partialWrite env (files w) e of
              None \<Rightarrow> w'
            | Some bytes \<Rightarrow> w'\<lparr>files := (files w')(dest \<mapsto> bytes)\<rparr>))
      | (None, w') \<Rightarrow> (None, w'\<lparr>files := (files w')(dest \<mapsto> archive env (files w) e)\<rparr>))"

section \<open>The generate command\<close>

definition validateGenerateOptions ::
  "generateOptions \<Rightarrow> world \<Rightarrow> string option \<times> world" where
  "validateGenerateOptions options w =
     (let (inputExists, w1) = iohelper_IsFileExist (markdownFilename options) w in
      if \<not> inputExists then
        (Some (''markdown file '' @ markdownFilename options @ '' does not exist''), w1)
      else
        let (outputExists, w2) = iohelper_IsFileExist (epubFilename options) w1 in
        if outputExists \<and> \<not> overwrite options then
          (Some (''epub file '' @ epubFilename options @
                 '' already exists, use option -f to overwrite''), w2)
        else (None, w2))"

definition convertMarkdownToHTML ::
  "env \<Rightarrow> string \<Rightarrow> world \<Rightarrow> (string + string) \<times> world" where
  "convertMarkdownToHTML env content w =
     (case attempt env (Convert content) w of
        (Some err, w') \<Rightarrow> (Inl err, w')
      | (None, w') \<Rightarrow> (Inr (goldmark env content), w'))"

definition generateCoverPage :: "string \<Rightarrow> string" where
  \<open>generateCoverPage t =
     ''<div class="cover-page">'' @ [CHR 0x0A, CHR 0x09] @
     ''<h1 class="cover-title">'' @ t @ ''</h1>'' @ [CHR 0x0A] @ ''</div>''\<close>

text \<open>
  \<^verbatim>\<open>createEpub\<close> from the statement after \<^verbatim>\<open>defer os.Remove(tmpFile.Name())\<close> to its
  return; \<^verbatim>\<open>createEpub\<close> runs the deferred call on what this part leaves.
\<close>

definition createEpubDeferred ::
  "env \<Rightarrow> generateOptions \<Rightarrow> string \<Rightarrow> string \<Rightarrow> epub \<Rightarrow> string \<Rightarrow> string \<Rightarrow> world
     \<Rightarrow> string option \<times> world" where
  "createEpubDeferred env generateOps t htmlContent e cssText tmpFile w =
     (case file_WriteString env tmpFile cssText w of
        (Some err, w1) \<Rightarrow>
          (Some (''failed to write CSS to temp file: '' @ err), file_Close tmpFile w1)
      | (None, w1) \<Rightarrow>
          let w2 = file_Close tmpFile w1 in
          (case epub_AddCSS env e tmpFile ''style.css'' w2 of
             (Inl err, w3) \<Rightarrow> (Some (''failed to add CSS: '' @ err), w3)
           | (Inr (cssPath, e1), w3) \<Rightarrow>
               let coverHTML = generateCoverPage t in
               (case epub_AddSection env e1 coverHTML ''Cover'' ''cover.xhtml'' cssPath w3 of
                  (Inl err, w4) \<Rightarrow> (Some (''failed to add cover page: '' @ err), w4)
                | (Inr e2, w4) \<Rightarrow>
                    (case epub_AddSection env e2 htmlContent t [] cssPath w4 of
                       (Inl err, w5) \<Rightarrow> (Some (''failed to add section: '' @ err), w5)
                     | (Inr e3, w5) \<Rightarrow>
                         (case epub_Write env e3 (epubFilename generateOps) w5 of
                            (Some err, w6) \<Rightarrow>
                              (Some (''failed to write epub file: '' @ err), w6)
                          | (None, w6) \<Rightarrow> (None, w6))))))"

definition createEpub ::
  "env \<Rightarrow> generateOptions \<Rightarrow> string \<Rightarrow> string \<Rightarrow> world \<Rightarrow> string option \<times> world" where
  "createEpub env generateOps t htmlContent w =
     (case epub_NewEpub env t w of
        (Inl err, w1) \<Rightarrow> (Some (''failed to create epub: '' @ err), w1)
      | (Inr e, w1) \<Rightarrow>
          let (e1, w2) = epub_SetLang e (language generateOps) w1;
              (e2, w3) = (if author generateOps \<noteq> []
                          then epub_SetAuthor e1 (author generateOps) w2 else (e1, w2));
              cssText = defaultCSS env
          in (case os_CreateTemp env [] ''epub-style-*.css'' w3 of
                (Inl err, w4) \<Rightarrow> (Some (''failed to create temp CSS file: '' @ err), w4)
              | (Inr tmpFile, w4) \<Rightarrow>
                  let (r, w5) = createEpubDeferred env generateOps t htmlContent e2 cssText
                                  tmpFile w4
                  in (r, os_Remove env tmpFile w5)))"

definition runGenerate :: "env \<Rightarrow> generateOptions \<Rightarrow> world \<Rightarrow> string option \<times> world" where
  "runGenerate env generateOps w =
     (case validateGenerateOptions generateOps w of
        (Some err, w1) \<Rightarrow> (Some err, w1)
      | (None, w1) \<Rightarrow>
          (case os_ReadFile env (markdownFilename generateOps) w1 of
             (Inl err, w2) \<Rightarrow> (Some (''failed to read markdown file: '' @ err), w2)
           | (Inr content, w2) \<Rightarrow>
               (case convertMarkdownToHTML env content w2 of
                  (Inl err, w3) \<Rightarrow> (Some (''failed to convert markdown to HTML: '' @ err), w3)
                | (Inr htmlContent, w3) \<Rightarrow>
                    let t = determineTitle generateOps content in
                    (case createEpub env generateOps t htmlContent w3 of
                       (Some err, w4) \<Rightarrow> (Some (''failed to create epub: '' @ err), w4)
                     | (None, w4) \<Rightarrow>
                         (None,
                          fmt_Printf (''Successfully created '' @ epubFilename generateOps @
                                      [CHR 0x0A]) w4)))))"

text \<open>
  A call that attaches no font: it is not \<open>AddFont\<close>, and a container it writes
  holds no font.
\<close>

definition noFont :: "call \<Rightarrow> bool" where
  "noFont c =
     (case c of AddFont source name \<Rightarrow> False | Write dest e \<Rightarrow> fonts e = [] | _ \<Rightarrow> True)"

subsection \<open>Example inputs\<close>

definition exampleCommandLine :: commandLine where
  "exampleCommandLine =
     \<lparr>inputFlag = Some ''book.md'', outputFlag = Some ''book.epub'', overwriteFlag = None,
      titleFlag = None, authorFlag = None, languageFlag = Some ''ja''\<rparr>"

definition exampleOptions :: generateOptions where
  "exampleOptions =
     \<lparr>markdownFilename = ''book.md'', epubFilename = ''book.epub'', overwrite = False,
      title = [], author = [], language = ''ja''\<rparr>"

definition exampleEnv :: env where
  "exampleEnv =
     \<lparr>fault = (\<lambda>c. None), defaultCSS = ''body { margin: 1em; }'',
      goldmark = (\<lambda>md. ''<p>'' @ md @ ''</p>''), TempDir = ''/tmp'',
      nextRandom = ''2718281828'', archive = (\<lambda>fs e. ''PK''),
      partialWrite = (\<lambda>fs e. None)\<rparr>"

definition diskFull :: "call \<Rightarrow> string option" where
  "diskFull c = (case c of Write dest e \<Rightarrow> Some ''no space left on device'' | _ \<Rightarrow> None)"

definition exampleWorld :: world where
  "exampleWorld =
     \<lparr>files = [''book.md'' \<mapsto> ''# My Book'', ''book.epub'' \<mapsto> ''old''], calls = []\<rparr>"

section \<open>Properties of the library functions\<close>

lemma unicodeSpaces_nonempty: "q \<in> set unicodeSpaces \<Longrightarrow> q \<noteq> []"
  by (auto simp: unicodeSpaces_def)

lemma trailingSpace_TrimRightSpace: "trailingSpace (TrimRightSpace s) = 0"
  by (induction s rule: TrimRightSpace.induct) (simp add: TrimRightSpace.simps)

lemma trailingSpace_TrimSpace: "trailingSpace (TrimSpace s) = 0"
  by (simp add: TrimSpace_def trailingSpace_TrimRightSpace)

text \<open>A string that ends in white space still does after bytes are put in front of it.\<close>

lemma trailingSpace_append:
  assumes "trailingSpace s \<noteq> 0"
  shows "trailingSpace (p @ s) \<noteq> 0"
proof -
  from assms have ne: "s \<noteq> []" by (auto simp: trailingSpace_def)
  show ?thesis
  proof (cases "asciiSpace (last s)")
    case True
    with ne show ?thesis by (simp add: trailingSpace_def)
  next
    case False
    with assms ne obtain q where q: "find (\<lambda>q. suffix q s) unicodeSpaces = Some q"
      by (auto simp: trailingSpace_def split: option.splits)
    then have "q \<in> set unicodeSpaces" and "suffix q s"
      by (auto simp: find_Some_iff)
    then have "\<exists>q\<in>set unicodeSpaces. suffix q (p @ s)"
      by (auto intro: suffix_appendI)
    then obtain q' where q': "find (\<lambda>q. suffix q (p @ s)) unicodeSpaces = Some q'"
      by (cases "find (\<lambda>q. suffix q (p @ s)) unicodeSpaces") (auto simp: find_None_iff)
    then have "q' \<in> set unicodeSpaces" by (auto simp: find_Some_iff)
    then have "q' \<noteq> []" by (rule unicodeSpaces_nonempty)
    with q' ne show ?thesis by (simp add: trailingSpace_def)
  qed
qed

lemma trailingSpace_marker: "trailingSpace ''# '' = 1"
  by (simp add: trailingSpace_def asciiSpace_def)

text \<open>
  What follows the marker in a trimmed line is never empty and never ends in white
  space: the marker itself ends in a space, which trimming would have removed.
\<close>

lemma heading_remainder:
  assumes "prefix ''# '' (TrimSpace l)"
  shows "drop 2 (TrimSpace l) \<noteq> []" and "trailingSpace (drop 2 (TrimSpace l)) = 0"
proof -
  from assms obtain r where r: "TrimSpace l = ''# '' @ r" by (auto simp: prefix_def)
  have z: "trailingSpace (''# '' @ r) = 0" using trailingSpace_TrimSpace [of l] r by simp
  show "drop 2 (TrimSpace l) \<noteq> []"
  proof
    assume "drop 2 (TrimSpace l) = []"
    with r have "r = []" by simp
    with z trailingSpace_marker show False by simp
  qed
  show "trailingSpace (drop 2 (TrimSpace l)) = 0"
    using trailingSpace_append [of r "''# ''"] z r by auto
qed

lemma extractTitleLoop_first:
  "\<forall>l\<in>set pre. \<not> prefix ''# '' (TrimSpace l) \<Longrightarrow> prefix ''# '' (TrimSpace line)
    \<Longrightarrow> extractTitleLoop (pre @ line # post) = drop 2 (TrimSpace line)"
  by (induction pre) (simp_all add: CutPrefix_def numeral_2_eq_2)

lemma extractTitleLoop_filter:
  "extractTitleLoop ls =
     (case filter (prefix ''# '') (map TrimSpace ls) of [] \<Rightarrow> [] | l # _ \<Rightarrow> drop 2 l)"
  by (induction ls) (simp_all add: CutPrefix_def numeral_2_eq_2)

lemma Base_nonempty: "Base p \<noteq> []"
  by (simp add: Base_def Let_def)

lemma TrimSuffix_empty_iff: "b \<noteq> [] \<Longrightarrow> TrimSuffix b e = [] \<longleftrightarrow> b = e"
  by (auto simp: TrimSuffix_def suffix_def)

lemma ExtLoop_hd: "ExtLoop xs v \<noteq> [] \<Longrightarrow> hd (ExtLoop xs v) = CHR ''.''"
  by (induction xs v rule: ExtLoop.induct) (auto split: if_splits)

lemma Ext_hd: "Ext p \<noteq> [] \<Longrightarrow> hd (Ext p) = CHR ''.''"
  by (simp add: Ext_def ExtLoop_hd)

lemma ExtLoop_skip:
  "\<forall>c\<in>set xs. c \<noteq> Separator \<and> c \<noteq> CHR ''.''
    \<Longrightarrow> ExtLoop (xs @ ys) v = ExtLoop ys (rev xs @ v)"
  by (induction xs arbitrary: v) simp_all

lemma ExtLoop_found:
  "ExtLoop xs v \<noteq> [] \<Longrightarrow>
   \<exists>a b. xs = a @ CHR ''.'' # b \<and> (\<forall>c\<in>set a. c \<noteq> Separator \<and> c \<noteq> CHR ''.'')"
proof (induction xs v rule: ExtLoop.induct)
  case (1 visited)
  then show ?case by simp
next
  case (2 c front visited)
  show ?case
  proof (cases "c = CHR ''.''")
    case True
    then have "c # front = [] @ CHR ''.'' # front" by simp
    then show ?thesis by (metis empty_iff list.set(1))
  next
    case False
    with "2.prems" have sep: "c \<noteq> Separator" and ne: "ExtLoop front (c # visited) \<noteq> []"
      by (auto split: if_splits)
    from "2.IH" [OF sep False ne] obtain a b
      where "front = a @ CHR ''.'' # b" and "\<forall>c\<in>set a. c \<noteq> Separator \<and> c \<noteq> CHR ''.''"
      by blast
    with sep False have "c # front = (c # a) @ CHR ''.'' # b
        \<and> (\<forall>x\<in>set (c # a). x \<noteq> Separator \<and> x \<noteq> CHR ''.'')"
      by simp
    then show ?thesis by blast
  qed
qed

lemma Ext_dot_name:
  assumes "CHR ''.'' \<notin> set n" and "Separator \<notin> set n"
  shows "Ext (d @ CHR ''.'' # n) = CHR ''.'' # n"
proof -
  have "\<forall>c\<in>set (rev n). c \<noteq> Separator \<and> c \<noteq> CHR ''.''"
    using assms by auto
  from ExtLoop_skip [OF this, of "CHR ''.'' # rev d" "[]"] show ?thesis
    by (simp add: Ext_def Separator_def)
qed

lemma Base_dot_name:
  assumes "Separator \<notin> set n"
  shows "Base (d @ CHR ''.'' # n)
           = rev (takeWhile (\<lambda>c. c \<noteq> Separator) (rev d)) @ CHR ''.'' # n"
proof -
  have "dropWhile (\<lambda>c. c = Separator) (rev n @ CHR ''.'' # rev d) = rev n @ CHR ''.'' # rev d"
    using assms by (cases "rev n") (auto simp: Separator_def)
  moreover have "takeWhile (\<lambda>c. c \<noteq> Separator) (rev n @ CHR ''.'' # rev d)
               = rev n @ takeWhile (\<lambda>c. c \<noteq> Separator) (CHR ''.'' # rev d)"
    using assms by (intro takeWhile_append2) auto
  then have "takeWhile (\<lambda>c. c \<noteq> Separator) (rev n @ CHR ''.'' # rev d)
               = rev n @ CHR ''.'' # takeWhile (\<lambda>c. c \<noteq> Separator) (rev d)"
    by (simp add: Separator_def)
  ultimately show ?thesis
    by (simp add: Base_def Let_def)
qed

text \<open>
  The base name of a path is its extension exactly when the last element of the path is
  a dot followed by bytes that are neither a dot nor a separator.
\<close>

lemma Base_eq_Ext_iff:
  "Base p = Ext p \<longleftrightarrow>
     (\<exists>d n. p = d @ CHR ''.'' # n \<and> (d = [] \<or> last d = Separator) \<and>
            CHR ''.'' \<notin> set n \<and> Separator \<notin> set n)"
proof
  assume eq: "Base p = Ext p"
  from eq Base_nonempty [of p] have "ExtLoop (rev p) [] \<noteq> []" by (simp add: Ext_def)
  from ExtLoop_found [OF this] obtain a b
    where ab: "rev p = a @ CHR ''.'' # b" and a: "\<forall>c\<in>set a. c \<noteq> Separator \<and> c \<noteq> CHR ''.''"
    by blast
  from ab have p: "p = rev b @ CHR ''.'' # rev a"
    by (metis rev_append rev.simps(2) rev_rev_ident append.assoc append_Cons append_Nil)
  from a have n: "CHR ''.'' \<notin> set (rev a)" "Separator \<notin> set (rev a)" by auto
  from eq p Ext_dot_name [OF n] Base_dot_name [OF n(2)]
  have "takeWhile (\<lambda>c. c \<noteq> Separator) (rev (rev b)) = []" by simp
  then have "rev b = [] \<or> last (rev b) = Separator"
    by (cases b) (auto split: if_splits)
  with p n show "\<exists>d n. p = d @ CHR ''.'' # n \<and> (d = [] \<or> last d = Separator) \<and>
            CHR ''.'' \<notin> set n \<and> Separator \<notin> set n"
    by blast
next
  assume "\<exists>d n. p = d @ CHR ''.'' # n \<and> (d = [] \<or> last d = Separator) \<and>
            CHR ''.'' \<notin> set n \<and> Separator \<notin> set n"
  then obtain d n where p: "p = d @ CHR ''.'' # n" and d: "d = [] \<or> last d = Separator"
    and n: "CHR ''.'' \<notin> set n" "Separator \<notin> set n"
    by blast
  from d have "takeWhile (\<lambda>c. c \<noteq> Separator) (rev d) = []"
    by (cases d rule: rev_cases) auto
  with p Ext_dot_name [OF n] Base_dot_name [OF n(2)] show "Base p = Ext p"
    by simp
qed

section \<open>Properties of the calls\<close>

lemma files_logCall [simp]: "files (logCall c w) = files w"
  by (simp add: logCall_def)

lemma calls_logCall [simp]: "calls (logCall c w) = calls w @ [c]"
  by (simp add: logCall_def)

lemmas call_defs =
  attempt_def iohelper_IsFileExist_def os_ReadFile_def os_CreateTemp_def
  file_WriteString_def file_Close_def os_Remove_def fmt_Printf_def epub_NewEpub_def
  epub_SetLang_def epub_SetAuthor_def epub_AddCSS_def epub_AddSection_def epub_Write_def
  convertMarkdownToHTML_def

lemma os_Remove_calls: "calls (os_Remove env name w) = calls w @ [Remove name]"
  by (simp add: os_Remove_def attempt_def split: option.splits)

lemma os_Remove_files:
  "fault env (Remove name) = None \<Longrightarrow> files (os_Remove env name w) name = None"
  by (simp add: os_Remove_def attempt_def)

lemma exampleTempName:
  "tempName exampleEnv [] ''epub-style-*.css'' = ''/tmp/epub-style-2718281828.css''"
  by (simp add: tempName_def prefixAndSuffix_def joinPath_def exampleEnv_def Separator_def)

text \<open>The calls of a successful run of the part of \<^verbatim>\<open>createEpub\<close> after the \<^verbatim>\<open>defer\<close>.\<close>

lemma createEpubDeferred_success:
  assumes "fst (createEpubDeferred env generateOps t htmlContent e cssText tmp w) = None"
  shows "calls (snd (createEpubDeferred env generateOps t htmlContent e cssText tmp w)) =
      calls w @
      [WriteString tmp cssText, Close tmp, AddCSS tmp ''style.css'',
       AddSection (generateCoverPage t) ''Cover'' ''cover.xhtml'' ''../css/style.css'',
       AddSection htmlContent t [] ''../css/style.css'',
       Write (epubFilename generateOps)
         (e\<lparr>css := css e @ [(''style.css'', tmp)],
            sections := sections e @
            [\<lparr>body = generateCoverPage t, sectionTitle = ''Cover'',
              internalFilename = ''cover.xhtml'', internalCSSPath = ''../css/style.css''\<rparr>,
             \<lparr>body = htmlContent, sectionTitle = t, internalFilename = [],
              internalCSSPath = ''../css/style.css''\<rparr>]\<rparr>)]"
  using assms
  by (simp add: createEpubDeferred_def call_defs Let_def
           split: option.splits prod.splits sum.splits if_splits)

text \<open>
  When the temporary file has been created, \<^verbatim>\<open>createEpub\<close> is the part after the
  \<^verbatim>\<open>defer\<close> followed by the deferred \<^verbatim>\<open>os.Remove\<close>.
\<close>

lemma createEpub_created:
  assumes "fault env (NewEpub t) = None"
    and "fault env (CreateTemp [] ''epub-style-*.css'') = None"
    and "files w (tempName env [] ''epub-style-*.css'') = None"
  shows "\<exists>w4. calls w4 = calls w @ [NewEpub t, SetLang (language generateOps)] @
                 (if author generateOps = [] then [] else [SetAuthor (author generateOps)]) @
                 [CreateTemp [] ''epub-style-*.css'']
          \<and> createEpub env generateOps t htmlContent w =
             (fst (createEpubDeferred env generateOps t htmlContent
                    \<lparr>epubTitle = t, lang = language generateOps,
                     epubAuthor = author generateOps, css = [], fonts = [], sections = []\<rparr>
                    (defaultCSS env) (tempName env [] ''epub-style-*.css'') w4),
              os_Remove env (tempName env [] ''epub-style-*.css'')
                (snd (createEpubDeferred env generateOps t htmlContent
                    \<lparr>epubTitle = t, lang = language generateOps,
                     epubAuthor = author generateOps, css = [], fonts = [], sections = []\<rparr>
                    (defaultCSS env) (tempName env [] ''epub-style-*.css'') w4)))"
proof -
  let ?w2 = "logCall (SetLang (language generateOps)) (logCall (NewEpub t) w)"
  let ?w3 = "if author generateOps = [] then ?w2
             else logCall (SetAuthor (author generateOps)) ?w2"
  let ?w4 = "(logCall (CreateTemp [] ''epub-style-*.css'') ?w3)
               \<lparr>files := (files w)(tempName env [] ''epub-style-*.css'' \<mapsto> [])\<rparr>"
  show ?thesis
    using assms
    by (intro exI [of _ ?w4])
       (simp add: createEpub_def epub_NewEpub_def epub_SetLang_def epub_SetAuthor_def
          os_CreateTemp_def attempt_def Let_def case_prod_beta)
qed

lemma createEpub_success:
  assumes "fst (createEpub env generateOps t htmlContent w) = None"
  shows "fault env (NewEpub t) = None
       \<and> fault env (CreateTemp [] ''epub-style-*.css'') = None
       \<and> files w (tempName env [] ''epub-style-*.css'') = None"
  using assms
  by (auto simp add: createEpub_def epub_NewEpub_def epub_SetLang_def epub_SetAuthor_def
        os_CreateTemp_def attempt_def Let_def split: prod.splits option.splits if_splits)

lemma createEpubDeferred_noFont:
  "list_all noFont (calls w) \<Longrightarrow> fonts e = [] \<Longrightarrow>
   list_all noFont
     (calls (snd (createEpubDeferred env generateOps t htmlContent e cssText tmp w)))"
  by (simp add: createEpubDeferred_def call_defs Let_def noFont_def
           split: option.splits prod.splits sum.splits)

lemma validateGenerateOptions_failure:
  assumes "validateGenerateOptions generateOps w = (Some err, w1)"
  shows "files w1 = files w"
    and "calls w1 = calls w @ Stat (markdownFilename generateOps) #
           (if files w (markdownFilename generateOps) = None then []
            else [Stat (epubFilename generateOps)])"
  using assms
  by (auto simp add: validateGenerateOptions_def iohelper_IsFileExist_def split: if_splits)

lemma exampleValidation:
  "fst (validateGenerateOptions exampleOptions exampleWorld)
     = Some ''epub file book.epub already exists, use option -f to overwrite''"
  by (simp add: validateGenerateOptions_def iohelper_IsFileExist_def exampleOptions_def
        exampleWorld_def)

lemma diskFullTempName:
  "tempName (exampleEnv\<lparr>fault := diskFull\<rparr>) [] ''epub-style-*.css''
     = ''/tmp/epub-style-2718281828.css''"
  by (simp add: tempName_def prefixAndSuffix_def joinPath_def exampleEnv_def Separator_def)

lemma diskFullRun:
  "fst (createEpub (exampleEnv\<lparr>fault := diskFull\<rparr>) exampleOptions ''My Book'' ''<p>text</p>''
          exampleWorld)
     = Some ''failed to write epub file: no space left on device''"
  by code_simp

lemma exampleRun:
  "fst (createEpub exampleEnv exampleOptions ''My Book'' ''<p>text</p>'' exampleWorld) = None"
  by code_simp

section \<open>Title resolution\<close>

text \<open>
  Claim C1, as the code has it. With no title flag, the lines of the document are scanned
  from the front. For the first line that, trimmed of surrounding white space, begins
  with the two bytes \<open># \<close>, the title is what follows these two bytes in the trimmed
  line, whatever the later lines are. That title is never empty and never ends in white
  space; white space between the marker and the text stays in it.
\<close>

theorem first_heading_line_is_title:
  assumes "titleFlag cl = None"
    and "SplitSeq content (CHR 0x0A) = pre @ line # post"
    and "\<forall>l\<in>set pre. \<not> prefix ''# '' (TrimSpace l)"
    and "prefix ''# '' (TrimSpace line)"
  shows "determineTitle (init cl) content = drop 2 (TrimSpace line)
       \<and> determineTitle (init cl) content \<noteq> []
       \<and> trailingSpace (determineTitle (init cl) content) = 0"
proof -
  have e: "extractTitleFromMarkdown content = drop 2 (TrimSpace line)"
    using assms(2-4) by (simp add: extractTitleFromMarkdown_def extractTitleLoop_first)
  have t: "title (init cl) = []"
    using assms(1) by (simp add: init_def StringVarP_def)
  have d: "determineTitle (init cl) content = drop 2 (TrimSpace line)"
    using e t heading_remainder(1) [OF assms(4)] by (simp add: determineTitle_def Let_def)
  show ?thesis
    using d heading_remainder [OF assms(4)] by simp
qed

text \<open>
  Claim C1 at a document of three lines, the second and the third both headings: the
  title comes from the second line.
\<close>

theorem first_heading_line_is_title_witness:
  "determineTitle (init exampleCommandLine) ''intro\<newline>  # My Book  \<newline># Second''
     = ''My Book''"
proof -
  have a: "titleFlag exampleCommandLine = None"
    by (simp add: exampleCommandLine_def)
  have b: "SplitSeq ''intro\<newline>  # My Book  \<newline># Second'' (CHR 0x0A)
             = [''intro''] @ ''  # My Book  '' # [''# Second'']"
    by simp
  have c: "\<forall>l\<in>set [''intro'']. \<not> prefix ''# '' (TrimSpace l)"
    by code_simp
  have d: "prefix ''# '' (TrimSpace ''  # My Book  '')"
    by code_simp
  have e: "drop 2 (TrimSpace ''  # My Book  '') = ''My Book''"
    by code_simp
  show ?thesis
    using first_heading_line_is_title [OF a b c d] e by simp
qed

text \<open>
  Claim C1 as stated fails: for the line \<open>#  My Book\<close>, with two spaces after the hash,
  the title is not the white-space-trimmed remainder of the line; it keeps the second
  space.
\<close>

theorem title_not_trimmed_counterexample:
  "determineTitle (init exampleCommandLine) ''#  My Book''
     \<noteq> TrimSpace (fst (CutPrefix (TrimSpace ''#  My Book'') ''# ''))"
  by code_simp

text \<open>
  Claim C10. The scan sees lines only: the title is decided by the trimmed lines that
  begin with \<open># \<close>, the first of them giving the title, and no other line has any
  influence. So a shell comment inside a fenced code block is taken as the title, and a
  later \<open># \<close> line is taken although an underlined level-1 heading comes before it.
\<close>

theorem title_scan_ignores_markdown_structure:
  "extractTitleFromMarkdown content =
     (case filter (prefix ''# '') (map TrimSpace (SplitSeq content (CHR 0x0A))) of
        [] \<Rightarrow> []
      | l # _ \<Rightarrow> drop 2 l)
   \<and> extractTitleFromMarkdown ''```\<newline># echo hello\<newline>```\<newline># Real Title''
       = ''echo hello''
   \<and> extractTitleFromMarkdown ''Real Title\<newline>==========\<newline>text\<newline># Later''
       = ''Later''"
proof -
  have "extractTitleFromMarkdown ''```\<newline># echo hello\<newline>```\<newline># Real Title''
          = ''echo hello''"
    by code_simp
  moreover
  have "extractTitleFromMarkdown ''Real Title\<newline>==========\<newline>text\<newline># Later''
          = ''Later''"
    by code_simp
  ultimately show ?thesis
    by (simp add: extractTitleFromMarkdown_def extractTitleLoop_filter)
qed

text \<open>Claim C10 at a line indented by four spaces, which Markdown renders as code.\<close>

theorem title_scan_ignores_markdown_structure_witness:
  "extractTitleFromMarkdown ''text\<newline>\<newline>    # indented code'' = ''indented code''"
proof -
  have "(case filter (prefix ''# '')
                (map TrimSpace (SplitSeq ''text\<newline>\<newline>    # indented code'' (CHR 0x0A))) of
           [] \<Rightarrow> []
         | l # _ \<Rightarrow> drop 2 l) = ''indented code''"
    by code_simp
  then show ?thesis
    using title_scan_ignores_markdown_structure [of "''text\<newline>\<newline>    # indented code''"]
    by simp
qed

text \<open>
  Claim C4, as the code has it. A title given by the \<open>--title\<close> flag that is not the
  empty string is the resolved title, whatever the document and the input file name are.
\<close>

theorem nonempty_title_flag_verbatim:
  "titleFlag cl = Some t \<Longrightarrow> t \<noteq> [] \<Longrightarrow> determineTitle (init cl) content = t"
  by (simp add: determineTitle_def init_def StringVarP_def)

text \<open>Claim C4 at the title \<open>Custom\<close> and a document with a heading of its own.\<close>

theorem nonempty_title_flag_verbatim_witness:
  "determineTitle (init (exampleCommandLine\<lparr>titleFlag := Some ''Custom''\<rparr>)) ''# My Book''
     = ''Custom''"
  using nonempty_title_flag_verbatim
          [of "exampleCommandLine\<lparr>titleFlag := Some ''Custom''\<rparr>" "''Custom''" "''# My Book''"]
  by simp

text \<open>
  Claim C4 as stated fails: the flag given with the empty string is not used verbatim;
  the resolved title comes from the document.
\<close>

theorem empty_title_flag_counterexample:
  "determineTitle (init (exampleCommandLine\<lparr>titleFlag := Some []\<rparr>)) ''# My Book''
     \<noteq> the (titleFlag (exampleCommandLine\<lparr>titleFlag := Some []\<rparr>))"
  by code_simp

text \<open>
  Claim C9. The flag \<open>--title\<close> given with the empty string leaves the options, and so
  the whole run, as they are without the flag; the title is then the first heading line
  of the document and, when there is none, the file name without its extension.
\<close>

theorem empty_title_flag_is_absent_flag:
  "init (cl\<lparr>titleFlag := Some []\<rparr>) = init (cl\<lparr>titleFlag := None\<rparr>)
   \<and> runGenerate env (init (cl\<lparr>titleFlag := Some []\<rparr>)) w
       = runGenerate env (init (cl\<lparr>titleFlag := None\<rparr>)) w
   \<and> determineTitle (init (cl\<lparr>titleFlag := Some []\<rparr>)) content =
       (if extractTitleFromMarkdown content \<noteq> [] then extractTitleFromMarkdown content
        else TrimSuffix (Base (StringVarP [] (inputFlag cl)))
               (Ext (StringVarP [] (inputFlag cl))))"
  by (simp add: init_def StringVarP_def determineTitle_def Let_def)

text \<open>Claim C9 at a document with a heading and at one without.\<close>

theorem empty_title_flag_is_absent_flag_witness:
  "determineTitle (init (exampleCommandLine\<lparr>titleFlag := Some []\<rparr>)) ''# My Book'' = ''My Book''
   \<and> determineTitle (init (exampleCommandLine\<lparr>titleFlag := Some []\<rparr>)) ''no heading'' = ''book''"
proof -
  have "extractTitleFromMarkdown ''# My Book'' = ''My Book''"
    and "extractTitleFromMarkdown ''no heading'' = []"
    and "TrimSuffix (Base ''book.md'') (Ext ''book.md'') = ''book''"
    by code_simp+
  moreover have "StringVarP [] (inputFlag exampleCommandLine) = ''book.md''"
    by (simp add: exampleCommandLine_def StringVarP_def)
  ultimately show ?thesis
    using empty_title_flag_is_absent_flag
            [of exampleCommandLine exampleEnv exampleWorld "''# My Book''",
             THEN conjunct2, THEN conjunct2]
          empty_title_flag_is_absent_flag
            [of exampleCommandLine exampleEnv exampleWorld "''no heading''",
             THEN conjunct2, THEN conjunct2]
    by simp
qed

text \<open>
  Claim C5, as the code has it. The resolved title is empty exactly when the title of
  the options is empty, no line of the document is a heading line, and the last element
  of the input path is a dot followed by bytes without a dot, as in \<open>.md\<close>. So it is
  not empty when the base name of the input path does not begin with a dot, and for
  \<open>chapter1.md\<close>, without heading line and without title, it is \<open>chapter1\<close>.
\<close>

theorem resolved_title_empty_iff:
  "(determineTitle generateOps content = [] \<longleftrightarrow>
      title generateOps = [] \<and> extractTitleFromMarkdown content = [] \<and>
      (\<exists>d n. markdownFilename generateOps = d @ CHR ''.'' # n \<and>
             (d = [] \<or> last d = Separator) \<and> CHR ''.'' \<notin> set n \<and> Separator \<notin> set n))
   \<and> (hd (Base (markdownFilename generateOps)) \<noteq> CHR ''.'' \<longrightarrow>
        determineTitle generateOps content \<noteq> [])
   \<and> (title generateOps = [] \<and> extractTitleFromMarkdown content = [] \<and>
        markdownFilename generateOps = ''chapter1.md'' \<longrightarrow>
        determineTitle generateOps content = ''chapter1'')"
proof -
  let ?p = "markdownFilename generateOps"
  have iff: "determineTitle generateOps content = [] \<longleftrightarrow>
      title generateOps = [] \<and> extractTitleFromMarkdown content = [] \<and> Base ?p = Ext ?p"
    by (auto simp: determineTitle_def Let_def TrimSuffix_empty_iff [OF Base_nonempty])
  have dot: "determineTitle generateOps content \<noteq> []" if h: "hd (Base ?p) \<noteq> CHR ''.''"
  proof
    assume "determineTitle generateOps content = []"
    with iff have eq: "Base ?p = Ext ?p" by simp
    with Base_nonempty [of ?p] have "Ext ?p \<noteq> []" by simp
    then have "hd (Ext ?p) = CHR ''.''" by (rule Ext_hd)
    with eq h show False by simp
  qed
  have stem: "TrimSuffix (Base ''chapter1.md'') (Ext ''chapter1.md'') = ''chapter1''"
    by code_simp
  have ex: "title generateOps = [] \<and> extractTitleFromMarkdown content = [] \<and>
        ?p = ''chapter1.md'' \<longrightarrow> determineTitle generateOps content = ''chapter1''"
    using stem by (auto simp: determineTitle_def Let_def)
  show ?thesis
    using iff dot ex unfolding Base_eq_Ext_iff by blast
qed

text \<open>Claim C5 at the input path \<open>chapter1.md\<close> and a document without heading line.\<close>

theorem resolved_title_empty_iff_witness:
  "determineTitle (exampleOptions\<lparr>markdownFilename := ''chapter1.md''\<rparr>) ''no heading''
     = ''chapter1''"
proof -
  have "extractTitleFromMarkdown ''no heading'' = []"
    by code_simp
  then show ?thesis
    using resolved_title_empty_iff
            [of "exampleOptions\<lparr>markdownFilename := ''chapter1.md''\<rparr>" "''no heading''"]
    by (simp add: exampleOptions_def)
qed

text \<open>
  Claim C5 as stated fails: the input path \<open>.md\<close> is not empty, and with a document
  without heading line and no title the resolved title is empty.
\<close>

theorem empty_stem_counterexample:
  "markdownFilename (exampleOptions\<lparr>markdownFilename := ''.md''\<rparr>) \<noteq> []
   \<and> determineTitle (exampleOptions\<lparr>markdownFilename := ''.md''\<rparr>) ''no heading'' = []"
  by code_simp

section \<open>Validation\<close>

text \<open>
  Claim C2. For all options and every file system, validation fails with the
  missing-input message when the Markdown path names no existing file; otherwise with
  the output-exists message when the EPUB path names an existing file and overwrite is
  not set; otherwise it succeeds. In each case the file system is left as it was: the
  only calls are the one or two that ask whether a file exists.
\<close>

theorem validateGenerateOptions_contract:
  "fst (validateGenerateOptions options w) =
     (if files w (markdownFilename options) = None
      then Some (''markdown file '' @ markdownFilename options @ '' does not exist'')
      else if files w (epubFilename options) \<noteq> None \<and> \<not> overwrite options
      then Some (''epub file '' @ epubFilename options @
                 '' already exists, use option -f to overwrite'')
      else None)
   \<and> files (snd (validateGenerateOptions options w)) = files w
   \<and> calls (snd (validateGenerateOptions options w)) =
       calls w @ Stat (markdownFilename options) #
         (if files w (markdownFilename options) = None then []
          else [Stat (epubFilename options)])"
  by (simp add: validateGenerateOptions_def iohelper_IsFileExist_def)

text \<open>
  Claim C2 at a missing input, at an existing output without overwrite, and at an
  existing output with overwrite.
\<close>

theorem validateGenerateOptions_contract_witness:
  "fst (validateGenerateOptions (exampleOptions\<lparr>markdownFilename := ''missing.md''\<rparr>) exampleWorld)
     = Some ''markdown file missing.md does not exist''
   \<and> fst (validateGenerateOptions exampleOptions exampleWorld)
     = Some ''epub file book.epub already exists, use option -f to overwrite''
   \<and> fst (validateGenerateOptions (exampleOptions\<lparr>overwrite := True\<rparr>) exampleWorld) = None
   \<and> files (snd (validateGenerateOptions (exampleOptions\<lparr>overwrite := True\<rparr>) exampleWorld))
     = files exampleWorld"
  using validateGenerateOptions_contract
          [of "exampleOptions\<lparr>markdownFilename := ''missing.md''\<rparr>" exampleWorld]
        validateGenerateOptions_contract [of exampleOptions exampleWorld]
        validateGenerateOptions_contract [of "exampleOptions\<lparr>overwrite := True\<rparr>" exampleWorld]
  by (simp add: exampleOptions_def exampleWorld_def)

text \<open>
  Claim C6. When validation fails, \<^verbatim>\<open>runGenerate\<close> returns the validation error and
  has done nothing but validate: the file system, and with it an output file that
  exists, is unchanged, and the only calls made are the existence checks of validation.
  The input file is not read and nothing is converted, whatever the environment is.
\<close>

theorem validation_failure_stops_run:
  assumes "fst (validateGenerateOptions generateOps w) = Some err"
  shows "runGenerate env generateOps w = (Some err, snd (validateGenerateOptions generateOps w))
       \<and> files (snd (runGenerate env generateOps w)) = files w
       \<and> calls (snd (runGenerate env generateOps w)) =
           calls w @ Stat (markdownFilename generateOps) #
             (if files w (markdownFilename generateOps) = None then []
              else [Stat (epubFilename generateOps)])"
proof -
  obtain w1 where v: "validateGenerateOptions generateOps w = (Some err, w1)"
    using assms by (cases "validateGenerateOptions generateOps w") auto
  then have r: "runGenerate env generateOps w = (Some err, w1)"
    by (simp add: runGenerate_def)
  from validateGenerateOptions_failure [OF v] r v show ?thesis by simp
qed

text \<open>Claim C6 at an output file that exists, without the overwrite flag.\<close>

theorem validation_failure_stops_run_witness:
  "fst (runGenerate exampleEnv exampleOptions exampleWorld)
     = Some ''epub file book.epub already exists, use option -f to overwrite''
   \<and> files (snd (runGenerate exampleEnv exampleOptions exampleWorld)) ''book.epub'' = Some ''old''
   \<and> calls (snd (runGenerate exampleEnv exampleOptions exampleWorld))
     = [Stat ''book.md'', Stat ''book.epub'']"
proof -
  note run = validation_failure_stops_run [OF exampleValidation, of exampleEnv]
  from run [THEN conjunct1]
  have "fst (runGenerate exampleEnv exampleOptions exampleWorld)
          = Some ''epub file book.epub already exists, use option -f to overwrite''"
    by simp
  moreover from run [THEN conjunct2, THEN conjunct1]
  have "files (snd (runGenerate exampleEnv exampleOptions exampleWorld)) ''book.epub''
          = Some ''old''"
    by (simp add: exampleWorld_def)
  moreover from run [THEN conjunct2, THEN conjunct2]
  have "calls (snd (runGenerate exampleEnv exampleOptions exampleWorld))
          = [Stat ''book.md'', Stat ''book.epub'']"
    by (simp add: exampleOptions_def exampleWorld_def)
  ultimately show ?thesis by simp
qed

section \<open>Assembling the container\<close>

text \<open>
  Claim C3. Once the temporary stylesheet file has been created (the container could be
  created, and \<^verbatim>\<open>os.CreateTemp\<close> succeeded on a name that was free), the last call of
  \<^verbatim>\<open>createEpub\<close> is the removal of that file, whichever of the later steps fails or
  none; and unless the operating system refuses the removal itself, the file does not
  exist when \<^verbatim>\<open>createEpub\<close> returns.
\<close>

theorem temp_stylesheet_removed_on_every_exit:
  assumes "fault env (NewEpub t) = None"
    and "fault env (CreateTemp [] ''epub-style-*.css'') = None"
    and "files w (tempName env [] ''epub-style-*.css'') = None"
  shows "last (calls (snd (createEpub env generateOps t htmlContent w)))
           = Remove (tempName env [] ''epub-style-*.css'')
       \<and> (fault env (Remove (tempName env [] ''epub-style-*.css'')) = None \<longrightarrow>
            files (snd (createEpub env generateOps t htmlContent w))
              (tempName env [] ''epub-style-*.css'') = None)"
proof -
  from createEpub_created [OF assms, of generateOps htmlContent]
  obtain r w5 where "createEpub env generateOps t htmlContent w =
      (r, os_Remove env (tempName env [] ''epub-style-*.css'') w5)"
    by blast
  then show ?thesis
    by (simp add: os_Remove_calls os_Remove_files)
qed

text \<open>Claim C3 at a run whose last step, writing the output file, fails.\<close>

theorem temp_stylesheet_removed_on_every_exit_witness:
  "fst (createEpub (exampleEnv\<lparr>fault := diskFull\<rparr>) exampleOptions ''My Book'' ''<p>text</p>''
          exampleWorld)
     = Some ''failed to write epub file: no space left on device''
   \<and> last (calls (snd (createEpub (exampleEnv\<lparr>fault := diskFull\<rparr>) exampleOptions ''My Book''
                          ''<p>text</p>'' exampleWorld)))
     = Remove ''/tmp/epub-style-2718281828.css''
   \<and> files (snd (createEpub (exampleEnv\<lparr>fault := diskFull\<rparr>) exampleOptions ''My Book''
                    ''<p>text</p>'' exampleWorld)) ''/tmp/epub-style-2718281828.css''
     = None"
proof -
  have a: "fault (exampleEnv\<lparr>fault := diskFull\<rparr>) (NewEpub ''My Book'') = None"
    and b: "fault (exampleEnv\<lparr>fault := diskFull\<rparr>) (CreateTemp [] ''epub-style-*.css'') = None"
    and d: "fault (exampleEnv\<lparr>fault := diskFull\<rparr>) (Remove ''/tmp/epub-style-2718281828.css'') = None"
    by (simp_all add: diskFull_def)
  have c: "files exampleWorld (tempName (exampleEnv\<lparr>fault := diskFull\<rparr>) [] ''epub-style-*.css'')
             = None"
    by (simp add: diskFullTempName exampleWorld_def)
  show ?thesis
    using temp_stylesheet_removed_on_every_exit
            [OF a b c, of exampleOptions "''<p>text</p>''"] d diskFullRun
    by (simp add: diskFullTempName)
qed

text \<open>
  Claim C7. A run of \<^verbatim>\<open>createEpub\<close> that succeeds has made exactly these calls, in
  this order: the stylesheet is attached, then the cover section is added, then the
  content section, both referring to the path the stylesheet was attached under, and
  then the container is written. The container written holds the stylesheet and the
  two sections, the cover first.
\<close>

theorem cover_before_content:
  assumes "fst (createEpub env generateOps t htmlContent w) = None"
  shows "calls (snd (createEpub env generateOps t htmlContent w)) =
      calls w @ [NewEpub t, SetLang (language generateOps)] @
      (if author generateOps = [] then [] else [SetAuthor (author generateOps)]) @
      [CreateTemp [] ''epub-style-*.css'',
       WriteString (tempName env [] ''epub-style-*.css'') (defaultCSS env),
       Close (tempName env [] ''epub-style-*.css''),
       AddCSS (tempName env [] ''epub-style-*.css'') ''style.css'',
       AddSection (generateCoverPage t) ''Cover'' ''cover.xhtml'' ''../css/style.css'',
       AddSection htmlContent t [] ''../css/style.css'',
       Write (epubFilename generateOps)
         \<lparr>epubTitle = t, lang = language generateOps, epubAuthor = author generateOps,
          css = [(''style.css'', tempName env [] ''epub-style-*.css'')], fonts = [],
          sections =
            [\<lparr>body = generateCoverPage t, sectionTitle = ''Cover'',
              internalFilename = ''cover.xhtml'', internalCSSPath = ''../css/style.css''\<rparr>,
             \<lparr>body = htmlContent, sectionTitle = t, internalFilename = [],
              internalCSSPath = ''../css/style.css''\<rparr>]\<rparr>,
       Remove (tempName env [] ''epub-style-*.css'')]"
proof -
  let ?tmp = "tempName env [] ''epub-style-*.css''"
  let ?e = "\<lparr>epubTitle = t, lang = language generateOps,
             epubAuthor = author generateOps, css = [], fonts = [], sections = []\<rparr>"
  from createEpub_success [OF assms] createEpub_created [of env t w generateOps htmlContent]
  obtain w4 where w4: "calls w4 = calls w @ [NewEpub t, SetLang (language generateOps)] @
                 (if author generateOps = [] then [] else [SetAuthor (author generateOps)]) @
                 [CreateTemp [] ''epub-style-*.css'']"
    and c: "createEpub env generateOps t htmlContent w =
             (fst (createEpubDeferred env generateOps t htmlContent ?e (defaultCSS env) ?tmp w4),
              os_Remove env ?tmp
                (snd (createEpubDeferred env generateOps t htmlContent ?e (defaultCSS env) ?tmp w4)))"
    by blast
  from assms c
  have "fst (createEpubDeferred env generateOps t htmlContent ?e (defaultCSS env) ?tmp w4) = None"
    by simp
  from createEpubDeferred_success [OF this] w4 c show ?thesis
    by (simp add: os_Remove_calls)
qed

text \<open>Claim C7 at a run in which no call fails.\<close>

theorem cover_before_content_witness:
  "calls (snd (createEpub exampleEnv exampleOptions ''My Book'' ''<p>text</p>'' exampleWorld)) =
      [NewEpub ''My Book'', SetLang ''ja'', CreateTemp [] ''epub-style-*.css'',
       WriteString ''/tmp/epub-style-2718281828.css'' ''body { margin: 1em; }'',
       Close ''/tmp/epub-style-2718281828.css'',
       AddCSS ''/tmp/epub-style-2718281828.css'' ''style.css'',
       AddSection (generateCoverPage ''My Book'') ''Cover'' ''cover.xhtml'' ''../css/style.css'',
       AddSection ''<p>text</p>'' ''My Book'' [] ''../css/style.css'',
       Write ''book.epub''
         \<lparr>epubTitle = ''My Book'', lang = ''ja'', epubAuthor = [],
          css = [(''style.css'', ''/tmp/epub-style-2718281828.css'')], fonts = [],
          sections =
            [\<lparr>body = generateCoverPage ''My Book'', sectionTitle = ''Cover'',
              internalFilename = ''cover.xhtml'', internalCSSPath = ''../css/style.css''\<rparr>,
             \<lparr>body = ''<p>text</p>'', sectionTitle = ''My Book'', internalFilename = [],
              internalCSSPath = ''../css/style.css''\<rparr>]\<rparr>,
       Remove ''/tmp/epub-style-2718281828.css'']"
proof -
  have "defaultCSS exampleEnv = ''body { margin: 1em; }''"
    by (simp add: exampleEnv_def)
  then show ?thesis
    using cover_before_content [OF exampleRun]
    by (simp add: exampleTempName exampleOptions_def exampleWorld_def)
qed

text \<open>
  Claim C8 does not hold of the code. With the language \<open>ja\<close>, as with any other,
  no call of \<^verbatim>\<open>createEpub\<close> attaches a font, and a container it writes holds none: the
  language only becomes the container's language metadata.
\<close>

theorem no_font_for_japanese:
  "list_all noFont
     (calls (snd (createEpub env (generateOps\<lparr>language := ''ja''\<rparr>) t htmlContent
                    (w\<lparr>calls := []\<rparr>))))"
  by (simp add: createEpub_def epub_NewEpub_def epub_SetLang_def epub_SetAuthor_def
        os_CreateTemp_def attempt_def Let_def os_Remove_calls createEpubDeferred_noFont noFont_def
        case_prod_beta
      split: option.splits)

end
